theory Spec2Isabelle
  imports Main "HOL-Library.Sublist"
begin

section \<open>Python strings\<close>

text \<open>
  A Python \<open>str\<close> is a sequence of Unicode code points, so it is modelled as a list of
  natural numbers (the code points). Literals are written \<open>str ''...''\<close>.
\<close>

type_synonym pystr = "nat list"

abbreviation (input) str :: "string \<Rightarrow> pystr" where
  "str s \<equiv> map of_char s"

text \<open>
  \<open>str.isspace\<close> for one code point, which is also the class \<open>\s\<close> of the \<open>re\<close> module
  on \<open>str\<close> patterns: U+0009..U+000D, U+001C..U+0020, U+0085, U+00A0, U+1680,
  U+2000..U+200A, U+2028, U+2029, U+202F, U+205F, U+3000.
\<close>

definition isspace :: "nat \<Rightarrow> bool" where
  "isspace c \<longleftrightarrow>
     (9 \<le> c \<and> c \<le> 13) \<or> (28 \<le> c \<and> c \<le> 32) \<or> c = 133 \<or> c = 160 \<or> c = 5760 \<or>
     (8192 \<le> c \<and> c \<le> 8202) \<or> c = 8232 \<or> c = 8233 \<or> c = 8239 \<or> c = 8287 \<or> c = 12288"

text \<open>
  The class \<open>\w\<close> of the \<open>re\<close> module (alphanumeric or underscore). The table is exact for
  Basic Latin, Latin-1 Supplement and the Cyrillic letters U+0400..U+045F; the model takes
  every other code point as a non-word character.
\<close>

definition is_word :: "nat \<Rightarrow> bool" where
  "is_word c \<longleftrightarrow>
     (48 \<le> c \<and> c \<le> 57) \<or> (65 \<le> c \<and> c \<le> 90) \<or> c = 95 \<or> (97 \<le> c \<and> c \<le> 122) \<or>
     c = 170 \<or> c = 178 \<or> c = 179 \<or> c = 181 \<or> c = 185 \<or> c = 186 \<or>
     (188 \<le> c \<and> c \<le> 190) \<or> (192 \<le> c \<and> c \<le> 214) \<or> (216 \<le> c \<and> c \<le> 246) \<or>
     (248 \<le> c \<and> c \<le> 255) \<or> (1024 \<le> c \<and> c \<le> 1119)"

definition lstrip :: "pystr \<Rightarrow> pystr" where
  "lstrip s = dropWhile isspace s"

definition rstrip :: "pystr \<Rightarrow> pystr" where
  "rstrip s = rev (dropWhile isspace (rev s))"

definition strip :: "pystr \<Rightarrow> pystr" where
  "strip s = rstrip (lstrip s)"

text \<open>\<open>s.startswith(p)\<close>\<close>

fun startswith :: "pystr \<Rightarrow> pystr \<Rightarrow> bool" where
  "startswith s [] = True"
| "startswith [] (p # ps) = False"
| "startswith (c # cs) (p # ps) = (c = p \<and> startswith cs ps)"

text \<open>\<open>needle in s\<close>\<close>

fun contains :: "pystr \<Rightarrow> pystr \<Rightarrow> bool" where
  "contains needle [] = (needle = [])"
| "contains needle (c # cs) = (startswith (c # cs) needle \<or> contains needle cs)"

text \<open>
  \<open>s.split(sep)\<close> for a non-empty separator: the text is scanned from the left and cut at
  every occurrence of \<open>sep\<close>, occurrences not overlapping. (Python raises \<open>ValueError\<close> on an
  empty separator; every call of the program passes a constant, non-empty one.)
\<close>

function split :: "pystr \<Rightarrow> pystr \<Rightarrow> pystr list" where
  "split [] sep = [[]]"
| "split (c # cs) sep =
     (if sep \<noteq> [] \<and> startswith (c # cs) sep
      then [] # split (drop (length sep) (c # cs)) sep
      else (case split cs sep of
              p # ps \<Rightarrow> (c # p) # ps
            | [] \<Rightarrow> [[c]]))"
  by pat_completeness auto
termination
  by (relation "measure (\<lambda>(s, sep). length s)") auto

text \<open>\<open>sep.join(xs)\<close>\<close>

fun join :: "pystr \<Rightarrow> pystr list \<Rightarrow> pystr" where
  "join sep [] = []"
| "join sep [x] = x"
| "join sep (x # y # ys) = x @ sep @ join sep (y # ys)"

text \<open>\<open>s.replace(old, new)\<close> for a non-empty \<open>old\<close>.\<close>

function replace :: "pystr \<Rightarrow> pystr \<Rightarrow> pystr \<Rightarrow> pystr" where
  "replace [] old new = []"
| "replace (c # cs) old new =
     (if old \<noteq> [] \<and> startswith (c # cs) old
      then new @ replace (drop (length old) (c # cs)) old new
      else c # replace cs old new)"
  by pat_completeness auto
termination
  by (relation "measure (\<lambda>(s, old, new). length s)") auto

abbreviation (input) nl :: pystr where
  "nl \<equiv> [10]"

section \<open>plantuml\_syntax\_fixer.py\<close>

subsection \<open>Messages\<close>

text \<open>
  The validator and the repair pass report in Russian sentences. Each message format of the
  source is one constructor here; the arguments are the values the source formats into the
  sentence.
\<close>

datatype verror =
    EmptyCode                    \<comment> \<open>the code is empty\<close>
  | NoStartuml                   \<comment> \<open>\<open>@startuml\<close> is missing\<close>
  | NoEnduml                     \<comment> \<open>\<open>@enduml\<close> is missing\<close>
  | IfEndifMismatch nat nat      \<comment> \<open>the numbers of \<open>if\<close> and of \<open>endif\<close> differ\<close>
  | ForbiddenId pystr            \<comment> \<open>a reserved word is used as an identifier\<close>
  | ColonBefore pystr            \<comment> \<open>a colon stands before the keyword\<close>
  | ThmeTypo                     \<comment> \<open>\<open>!thme\<close> is written for \<open>!theme\<close>\<close>

datatype diagnostic =
    ThmeFixed                    \<comment> \<open>\<open>!thme\<close> was replaced by \<open>!theme\<close>\<close>
  | ColonRemoved pystr           \<comment> \<open>the colon before a keyword was removed, in the line given\<close>
  | ThenAdded pystr              \<comment> \<open>\<open>then\<close> was added after \<open>if\<close>, in the line given\<close>
  | RemainingErrors "verror list" \<comment> \<open>errors that remain after the repair\<close>

subsection \<open>Regular expressions of the fixer\<close>

definition control_keywords :: "pystr list" where
  "control_keywords = [str ''if'', str ''else'', str ''endif'', str ''start'', str ''stop'']"

text \<open>
  \<open>re.match(r'^\s*:KW\<bslash>b', line)\<close> for a keyword \<open>KW\<close>, which ends in a word character:
  the boundary \<open>\<bslash>b\<close> holds when the text ends after the keyword or goes on with a
  non-word character.
\<close>

definition match_colon :: "pystr \<Rightarrow> pystr \<Rightarrow> bool" where
  "match_colon kw line \<longleftrightarrow>
     (let rest = dropWhile isspace line in
      startswith rest (58 # kw) \<and>
      (case drop (Suc (length kw)) rest of [] \<Rightarrow> True | c # _ \<Rightarrow> \<not> is_word c))"

text \<open>\<open>re.sub(r'^(\s*):KW\<bslash>b', r'\<bslash>1KW', line)\<close>: the anchor allows one match only.\<close>

definition sub_colon :: "pystr \<Rightarrow> pystr \<Rightarrow> pystr" where
  "sub_colon kw line =
     (if match_colon kw line
      then takeWhile isspace line @ kw @ drop (Suc (length kw)) (dropWhile isspace line)
      else line)"

subsection \<open>\_validate\_if\_structure\<close>

text \<open>
  The first loop: the stack of the positions of the open \<open>if\<close> lines, and the lines
  collected. Its third branch repeats the test of the first one and is never taken.
\<close>

definition scan_step :: "nat list \<times> pystr list \<Rightarrow> nat \<times> pystr \<Rightarrow> nat list \<times> pystr list" where
  "scan_step st il =
     (case st of (if_stack, fixed_lines) \<Rightarrow> case il of (i, line) \<Rightarrow>
      let stripped_line = strip line in
      if startswith stripped_line (str ''if '') then
        (if_stack @ [i], fixed_lines @ [line])
      else if startswith stripped_line (str ''endif'') then
        (if if_stack \<noteq> [] then butlast if_stack else if_stack, fixed_lines @ [line])
      else if startswith stripped_line (str ''if '') \<and> \<not> contains (str '' then'') stripped_line then
        (if_stack, fixed_lines @ [rstrip line @ str '' then''])
      else
        (if_stack, fixed_lines @ [line]))"

text \<open>
  The second loop, for one open \<open>if\<close>: \<open>endif\<close> is inserted before the first non-blank
  line after the position of the \<open>if\<close>, or appended when there is none.
\<close>

definition close_if :: "pystr list \<Rightarrow> nat \<Rightarrow> pystr list" where
  "close_if fixed_lines if_line_index =
     (case find (\<lambda>i. strip (fixed_lines ! i) \<noteq> []) [Suc if_line_index ..< length fixed_lines] of
        Some i \<Rightarrow> take i fixed_lines @ [str ''endif''] @ drop i fixed_lines
      | None \<Rightarrow> fixed_lines @ [str ''endif''])"

definition validate_if_structure :: "pystr \<Rightarrow> pystr" where
  "validate_if_structure plantuml_code =
     (let lines = split plantuml_code nl;
          (if_stack, fixed_lines) = foldl scan_step ([], []) (enumerate 0 lines)
      in join nl (foldl close_if fixed_lines if_stack))"

subsection \<open>validate\_plantuml\_syntax\<close>

definition forbidden_ids :: "pystr list" where
  "forbidden_ids = [str ''end'', str ''click'', str ''class'', str ''style'', str ''subgraph'',
                    str ''graph'', str ''flowchart'']"

fun count_ifs :: "pystr list \<Rightarrow> nat \<times> nat \<Rightarrow> nat \<times> nat" where
  "count_ifs [] cnt = cnt"
| "count_ifs (line # rest) (if_count, endif_count) =
     (let stripped_line = strip line in
      if startswith stripped_line (str ''if '') then count_ifs rest (if_count + 1, endif_count)
      else if startswith stripped_line (str ''endif'') then count_ifs rest (if_count, endif_count + 1)
      else count_ifs rest (if_count, endif_count))"

definition forbidden_errors :: "pystr list \<Rightarrow> verror list" where
  "forbidden_errors lines =
     List.map_filter
       (\<lambda>line. map_option ForbiddenId
          (find (\<lambda>fid. contains (str '' as '' @ fid) line \<or> contains ([32] @ fid @ [32]) line)
             forbidden_ids))
       lines"

definition colon_errors :: "pystr list \<Rightarrow> verror list" where
  "colon_errors lines =
     List.map_filter (\<lambda>line. map_option ColonBefore (find (\<lambda>kw. match_colon kw line) control_keywords)) lines"

definition validate_plantuml_syntax :: "pystr \<Rightarrow> bool \<times> verror list" where
  "validate_plantuml_syntax plantuml_code =
     (if plantuml_code = [] then (False, [EmptyCode])
      else
        let lines = split plantuml_code nl;
            has_start = list_ex (contains (str ''@startuml'')) lines;
            has_end = list_ex (contains (str ''@enduml'')) lines;
            (if_count, endif_count) = count_ifs lines (0, 0);
            errors =
              (if \<not> has_start then [NoStartuml] else []) @
              (if \<not> has_end then [NoEnduml] else []) @
              (if if_count \<noteq> endif_count then [IfEndifMismatch if_count endif_count] else []) @
              forbidden_errors lines @
              colon_errors lines @
              (if contains (str ''!thme'') plantuml_code then [ThmeTypo] else [])
        in (errors = [], errors))"

subsection \<open>auto\_fix\_plantuml\<close>

text \<open>Repair 1: the misspelt directive.\<close>

definition fix_thme :: "pystr \<times> diagnostic list \<Rightarrow> pystr \<times> diagnostic list" where
  "fix_thme st =
     (case st of (fixed_code, fixes_applied) \<Rightarrow>
        if contains (str ''!thme'') fixed_code
        then (replace fixed_code (str ''!thme'') (str ''!theme''), fixes_applied @ [ThmeFixed])
        else (fixed_code, fixes_applied))"

text \<open>Repair 2: one pass over the lines for each keyword, in the order of the table.\<close>

definition colon_pass :: "pystr \<times> diagnostic list \<Rightarrow> pystr \<Rightarrow> pystr \<times> diagnostic list" where
  "colon_pass st kw =
     (case st of (fixed_code, fixes_applied) \<Rightarrow>
        let lines = split fixed_code nl in
        (join nl (map (sub_colon kw) lines),
         fixes_applied @ map (\<lambda>line. ColonRemoved (strip line))
                             (filter (\<lambda>line. sub_colon kw line \<noteq> line) lines)))"

definition fix_colons :: "pystr \<times> diagnostic list \<Rightarrow> pystr \<times> diagnostic list" where
  "fix_colons st = foldl colon_pass st control_keywords"

text \<open>Repair 3: \<open>then\<close> after an \<open>if\<close> line that has none.\<close>

definition needs_then :: "pystr \<Rightarrow> bool" where
  "needs_then line \<longleftrightarrow> startswith (strip line) (str ''if '') \<and> \<not> contains (str '' then'') line"

definition add_then :: "pystr \<Rightarrow> pystr" where
  "add_then line = (if needs_then line then rstrip line @ str '' then'' else line)"

definition fix_then :: "pystr \<times> diagnostic list \<Rightarrow> pystr \<times> diagnostic list" where
  "fix_then st =
     (case st of (fixed_code, fixes_applied) \<Rightarrow>
        let lines = split fixed_code nl in
        (join nl (map add_then lines),
         fixes_applied @ map (\<lambda>line. ThenAdded (strip line)) (filter needs_then lines)))"

definition auto_fix_plantuml :: "pystr \<Rightarrow> pystr \<times> diagnostic list" where
  "auto_fix_plantuml plantuml_code =
     (let (is_valid, errors) = validate_plantuml_syntax plantuml_code in
      if \<not> is_valid then
        let (code3, fixes3) = fix_then (fix_colons (fix_thme (plantuml_code, [])));
            fixed_code = validate_if_structure code3;
            (is_valid_after_fix, remaining_errors) = validate_plantuml_syntax fixed_code
        in (fixed_code,
            if remaining_errors \<noteq> [] then fixes3 @ [RemainingErrors remaining_errors] else fixes3)
      else (plantuml_code, []))"

section \<open>plantuml\_generator.py\<close>

subsection \<open>Errors, dictionaries and regular expressions\<close>

text \<open>
  The one exception the two translators can raise on a dictionary of strings: a local
  variable read before any assignment.
\<close>

datatype error = UnboundLocalError

text \<open>
  A \<open>dict\<close> keeps its keys in the order of their first insertion; assigning to a key that is
  present replaces the value in place. It is modelled as the list of its items.
\<close>

type_synonym dict = "(pystr \<times> pystr) list"

fun dict_set :: "dict \<Rightarrow> pystr \<Rightarrow> pystr \<Rightarrow> dict" where
  "dict_set [] k v = [(k, v)]"
| "dict_set ((k', v') # d) k v = (if k' = k then (k', v) # d else (k', v') # dict_set d k v)"




text \<open>
  \<open>re.search\<close> for an opening character \<open>l\<close>, one or more characters other than the closing
  character \<open>r\<close>, and \<open>r\<close>: the first group of the leftmost match. It serves the patterns
  \<open>\[([^\]]+)\]\<close>, \<open>\{([^\}]+)\}\<close> and \<open>\|([^|]+)\|\<close>. At an opening character the greedy
  group takes every character up to the next \<open>r\<close>; it fails when that run is empty or the text
  ends without \<open>r\<close>, and the search goes on one character further.
\<close>

fun search_group :: "nat \<Rightarrow> nat \<Rightarrow> pystr \<Rightarrow> pystr option" where
  "search_group l r [] = None"
| "search_group l r (c # cs) =
     (if c = l \<and> takeWhile (\<lambda>x. x \<noteq> r) cs \<noteq> [] \<and> dropWhile (\<lambda>x. x \<noteq> r) cs \<noteq> []
      then Some (takeWhile (\<lambda>x. x \<noteq> r) cs)
      else search_group l r cs)"

text \<open>\<open>re.sub(r'\|[^|]+\|', '', s)\<close>: every match is removed, from the left.\<close>

function sub_label :: "pystr \<Rightarrow> pystr" where
  "sub_label [] = []"
| "sub_label (c # cs) =
     (if c = 124 \<and> takeWhile (\<lambda>x. x \<noteq> 124) cs \<noteq> [] \<and> dropWhile (\<lambda>x. x \<noteq> 124) cs \<noteq> []
      then sub_label (tl (dropWhile (\<lambda>x. x \<noteq> 124) cs))
      else c # sub_label cs)"
  by pat_completeness auto
termination
proof (relation "measure length")
  fix c :: nat and cs :: pystr
  have "length (tl (dropWhile (\<lambda>x. x \<noteq> 124) cs)) \<le> length cs"
    using length_dropWhile_le [of "\<lambda>x. x \<noteq> 124" cs] by simp
  then show "(tl (dropWhile (\<lambda>x. x \<noteq> 124) cs), c # cs) \<in> measure length"
    by simp
qed simp_all

text \<open>\<open>re.match(r'^(\w+)\[([^\]]+)\]', s)\<close>: the two groups.\<close>

definition match_actor :: "pystr \<Rightarrow> (pystr \<times> pystr) option" where
  "match_actor s =
     (let w = takeWhile is_word s; rest = dropWhile is_word s in
      if w \<noteq> [] \<and> startswith rest [91] then
        (let body = takeWhile (\<lambda>x. x \<noteq> 93) (tl rest);
             after = dropWhile (\<lambda>x. x \<noteq> 93) (tl rest)
         in if body \<noteq> [] \<and> startswith after [93] then Some (w, body) else None)
      else None)"

text \<open>\<open>re.match(r'^(\w+)\(\(([^)]+)\)\)', s)\<close>: the two groups.\<close>

definition match_usecase :: "pystr \<Rightarrow> (pystr \<times> pystr) option" where
  "match_usecase s =
     (let w = takeWhile is_word s; rest = dropWhile is_word s in
      if w \<noteq> [] \<and> startswith rest [40, 40] then
        (let body = takeWhile (\<lambda>x. x \<noteq> 41) (drop 2 rest);
             after = dropWhile (\<lambda>x. x \<noteq> 41) (drop 2 rest)
         in if body \<noteq> [] \<and> startswith after [41, 41] then Some (w, body) else None)
      else None)"

text \<open>
  The label of a connection and the target part without it: the first \<open>|...|\<close> group, all
  such groups removed.
\<close>

definition take_label :: "pystr \<Rightarrow> pystr \<times> pystr" where
  "take_label target_part =
     (case search_group 124 124 target_part of
        Some label \<Rightarrow> (label, strip (sub_label target_part))
      | None \<Rightarrow> ([], target_part))"

text \<open>The lines the loops read: the text stripped and split, a leading \<open>flowchart\<close> line dropped.\<close>

definition mermaid_lines :: "pystr \<Rightarrow> pystr list" where
  "mermaid_lines mermaid_code =
     (let lines = split (strip mermaid_code) nl in
      if lines \<noteq> [] \<and> startswith (strip (hd lines)) (str ''flowchart'') then tl lines else lines)"

text \<open>A text between double quotes, and the start and end symbol of an activity diagram.\<close>

definition quoted :: "pystr \<Rightarrow> pystr" where
  "quoted s = [34] @ s @ [34]"


subsection \<open>generateBPMNDiagram\<close>












subsection \<open>generateUseCaseDiagram\<close>

record usecase_state =
  actors :: dict
  usecases :: dict
  uc_connections :: "(pystr \<times> pystr \<times> pystr \<times> pystr) list"
  uc_source_id :: "pystr option"

text \<open>The source part of a line: an actor \<open>ID[text]\<close>, else a use case \<open>ID((text))\<close>.\<close>

definition usecase_source :: "usecase_state \<Rightarrow> pystr \<Rightarrow> usecase_state" where
  "usecase_source st source_part =
     (if contains [91] source_part \<and> \<not> contains [40] source_part then
        (case match_actor source_part of
           Some (sid, source_text) \<Rightarrow>
             st\<lparr>actors := dict_set (actors st) sid source_text, uc_source_id := Some sid\<rparr>
         | None \<Rightarrow> st)
      else if contains [40, 40] source_part then
        (case match_usecase source_part of
           Some (sid, source_text) \<Rightarrow>
             st\<lparr>usecases := dict_set (usecases st) sid source_text, uc_source_id := Some sid\<rparr>
         | None \<Rightarrow> st)
      else st)"

text \<open>
  The target part: when it matches, the connection is appended, which reads \<open>source_id\<close>.
\<close>

definition append_connection ::
  "usecase_state \<Rightarrow> pystr \<Rightarrow> pystr \<Rightarrow> pystr \<Rightarrow> error + usecase_state" where
  "append_connection st target_id connection_type label =
     (case uc_source_id st of
        Some sid \<Rightarrow>
          Inr (st\<lparr>uc_connections := uc_connections st @ [(sid, target_id, connection_type, label)]\<rparr>)
      | None \<Rightarrow> Inl UnboundLocalError)"

definition usecase_target ::
  "usecase_state \<Rightarrow> pystr \<Rightarrow> pystr \<Rightarrow> pystr \<Rightarrow> error + usecase_state" where
  "usecase_target st target_part connection_type label =
     (if contains [91] target_part \<and> \<not> contains [40] target_part then
        (case match_actor target_part of
           Some (target_id, target_text) \<Rightarrow>
             append_connection (st\<lparr>actors := dict_set (actors st) target_id target_text\<rparr>)
               target_id connection_type label
         | None \<Rightarrow> Inr st)
      else if contains [40, 40] target_part then
        (case match_usecase target_part of
           Some (target_id, target_text) \<Rightarrow>
             append_connection (st\<lparr>usecases := dict_set (usecases st) target_id target_text\<rparr>)
               target_id connection_type label
         | None \<Rightarrow> Inr st)
      else Inr st)"

definition usecase_line :: "usecase_state \<Rightarrow> pystr \<Rightarrow> error + usecase_state" where
  "usecase_line st raw_line =
     (let line = strip raw_line in
      if line = [] \<or> startswith line (str ''%%'') then Inr st
      else if contains (str ''-->'') line \<or> contains (str ''-.->'') line then
        (let (parts, connection_type) =
               (if contains (str ''-->'') line then (split line (str ''-->''), str ''-->'')
                else (split line (str ''-.->''), str ''.->''))
         in if length parts \<ge> 2 then
              (let st1 = usecase_source st (strip (parts ! 0));
                   (label, target_part) = take_label (strip (parts ! 1))
               in usecase_target st1 target_part connection_type label)
            else Inr st)
      else Inr st)"

fun usecase_loop :: "usecase_state \<Rightarrow> pystr list \<Rightarrow> error + usecase_state" where
  "usecase_loop st [] = Inr st"
| "usecase_loop st (line # rest) =
     (case usecase_line st line of
        Inl e \<Rightarrow> Inl e
      | Inr st' \<Rightarrow> usecase_loop st' rest)"

definition usecase_parse :: "pystr \<Rightarrow> error + usecase_state" where
  "usecase_parse mermaid_code =
     usecase_loop \<lparr>actors = [], usecases = [], uc_connections = [], uc_source_id = None\<rparr>
       (mermaid_lines mermaid_code)"

definition usecase_header :: "pystr list" where
  "usecase_header =
     [str ''@startuml'', str ''!theme plain'', str ''title Use Case Diagram'',
      str ''left to right direction'',
      str ''skinparam actor {'',
      str ''  BackgroundColor LightGreen'',
      str ''  BorderColor DarkGreen'',
      str ''}'',
      str ''skinparam usecase {'',
      str ''  BackgroundColor LightBlue'',
      str ''  BorderColor DarkBlue'',
      str ''}'']"

text \<open>The relationship line of one connection.\<close>

definition relation_line :: "pystr \<times> pystr \<times> pystr \<times> pystr \<Rightarrow> pystr" where
  "relation_line conn =
     (case conn of (source, target, conn_type, label) \<Rightarrow>
        if label \<noteq> [] then
          (if conn_type = str ''.->'' then
             source @ str '' .'' @ drop 1 conn_type @ str '' '' @ quoted label @ str '' '' @ target
           else
             source @ str '' '' @ conn_type @ str '' '' @ quoted label @ str '' '' @ target)
        else source @ str '' '' @ conn_type @ str '' '' @ target)"

definition usecase_output :: "usecase_state \<Rightarrow> pystr list" where
  "usecase_output st =
     usecase_header @
     map (\<lambda>(actor_id, actor_text). str ''actor '' @ quoted actor_text @ str '' as '' @ actor_id)
         (actors st) @
     [[]] @
     map (\<lambda>(uc_id, uc_text). str ''usecase '' @ quoted uc_text @ str '' as '' @ uc_id)
         (usecases st) @
     [[]] @
     map relation_line (uc_connections st) @
     [str ''@enduml'']"

definition usecase_skeleton :: pystr where
  "usecase_skeleton = str ''@startuml'' @ nl @ str ''title Use Case Diagram'' @ nl @ str ''@enduml''"

definition generateUseCaseDiagram :: "dict \<Rightarrow> error + pystr" where
  "generateUseCaseDiagram actorData =
     (case (if actorData = [] then None else map_of actorData (str ''usecase_mermaid'')) of
        None \<Rightarrow> Inr usecase_skeleton
      | Some mermaid_code \<Rightarrow>
          (case usecase_parse mermaid_code of
             Inl e \<Rightarrow> Inl e
           | Inr st \<Rightarrow> Inr (join nl (usecase_output st))))"

section \<open>Derived notions and the inputs of the scenarios\<close>

text \<open>The stack of open \<open>if\<close> positions that the first loop of \<open>_validate_if_structure\<close> leaves.\<close>

definition open_ifs :: "pystr list \<Rightarrow> nat list" where
  "open_ifs ls = fst (foldl scan_step ([], []) (enumerate 0 ls))"



text \<open>The text of the balance repair scenario, its lines, and the lines after the repair.\<close>

definition balance_input :: pystr where
  "balance_input = str ''@startuml'' @ nl @ str ''if (x?) then'' @ nl @ str '':a;'' @ nl"

definition balance_lines :: "pystr list" where
  "balance_lines = [str ''@startuml'', str ''if (x?) then'', str '':a;'', []]"

definition balance_fixed_lines :: "pystr list" where
  "balance_fixed_lines = [str ''@startuml'', str ''if (x?) then'', str ''endif'', str '':a;'', []]"




text \<open>The notation lines of the scenarios of the translators, and the states they lead to.\<close>

definition login_line :: pystr where
  "login_line = str ''A[User] --> B((Login))''"

definition unbound_line :: pystr where
  "unbound_line = str ''X --> B((Login))''"


definition usecase_init :: usecase_state where
  "usecase_init = \<lparr>actors = [], usecases = [], uc_connections = [], uc_source_id = None\<rparr>"

definition login_state :: usecase_state where
  "login_state = \<lparr>actors = [(str ''A'', str ''User'')], usecases = [(str ''B'', str ''Login'')],
     uc_connections = [(str ''A'', str ''B'', str ''-->'', [])], uc_source_id = Some (str ''A'')\<rparr>"



section \<open>Splitting and joining lines\<close>

lemma split_not_Nil: "split s sep \<noteq> []"
  by (induction s sep rule: split.induct) (auto split: list.splits)

lemma split_nl_Cons:
  "split (c # cs) nl = (if c = 10 then [] # split cs nl else (c # hd (split cs nl)) # tl (split cs nl))"
  using split_not_Nil [of cs nl] by (cases "split cs nl") auto

lemma split_nl_no_newline: "10 \<notin> set x \<Longrightarrow> split x nl = [x]"
  by (induction x) (auto simp: split_nl_Cons)

lemma split_nl_append: "10 \<notin> set x \<Longrightarrow> split (x @ 10 # r) nl = x # split r nl"
  by (induction x) (auto simp: split_nl_Cons)

lemma join_Cons_Cons: "join sep ((c # p) # ps) = c # join sep (p # ps)"
  by (cases ps) auto

lemma join_nl_Cons: "ls \<noteq> [] \<Longrightarrow> join nl (x # ls) = x @ 10 # join nl ls"
  by (cases ls) auto

lemma join_split_nl: "join nl (split s nl) = s"
proof (induction s)
  case Nil
  show ?case by simp
next
  case (Cons c cs)
  obtain p ps where ps: "split cs nl = p # ps"
    using split_not_Nil [of cs nl] by (cases "split cs nl") auto
  show ?case
  proof (cases "c = 10")
    case True
    then show ?thesis using Cons ps by (simp add: split_nl_Cons)
  next
    case False
    then show ?thesis using Cons ps by (simp add: split_nl_Cons join_Cons_Cons)
  qed
qed

lemma split_join_nl:
  "ls \<noteq> [] \<Longrightarrow> \<forall>l \<in> set ls. 10 \<notin> set l \<Longrightarrow> split (join nl ls) nl = ls"
proof (induction ls)
  case Nil
  then show ?case by simp
next
  case (Cons x ls)
  show ?case
  proof (cases "ls = []")
    case True
    then show ?thesis using Cons.prems by (simp add: split_nl_no_newline)
  next
    case False
    then show ?thesis using Cons by (simp add: join_nl_Cons split_nl_append)
  qed
qed


section \<open>The balance repair keeps the lines\<close>

lemma scan_step_cases:
  "scan_step (stack, fl) (i, line) =
     (if startswith (strip line) (str ''if '') then (stack @ [i], fl @ [line])
      else if startswith (strip line) (str ''endif'')
           then (if stack \<noteq> [] then butlast stack else stack, fl @ [line])
      else (stack, fl @ [line]))"
  by (simp add: scan_step_def Let_def)

lemma scan_lines:
  "snd (foldl scan_step (stack, fl) (enumerate n ls)) = fl @ ls"
proof (induction ls arbitrary: stack fl n)
  case Nil
  show ?case by simp
next
  case (Cons l ls)
  show ?case
    by (simp only: enumerate_simps foldl_Cons scan_step_cases) (simp add: Cons.IH)
qed





lemma validate_if_structure_lines:
  "validate_if_structure c = join nl (foldl close_if (split c nl) (open_ifs (split c nl)))"
proof -
  obtain stack fl where sf: "foldl scan_step ([], []) (enumerate 0 (split c nl)) = (stack, fl)"
    by (cases "foldl scan_step ([], []) (enumerate 0 (split c nl))") auto
  have "fl = split c nl"
    using scan_lines [of "[]" "[]" 0 "split c nl"] sf by simp
  then show ?thesis
    using sf by (simp add: validate_if_structure_def open_ifs_def Let_def)
qed


section \<open>Repairs that find nothing to do; evaluating the validator\<close>

lemma fix_thme_noop: "\<not> contains (str ''!thme'') c \<Longrightarrow> fix_thme (c, f) = (c, f)"
  by (simp add: fix_thme_def)

lemma colon_pass_noop:
  assumes "\<forall>l \<in> set (split c nl). \<not> match_colon kw l"
  shows "colon_pass (c, f) kw = (c, f)"
proof -
  have same: "\<forall>l \<in> set (split c nl). sub_colon kw l = l"
    using assms by (simp add: sub_colon_def)
  then have "map (sub_colon kw) (split c nl) = split c nl"
    by (simp add: map_idI)
  moreover have "filter (\<lambda>l. sub_colon kw l \<noteq> l) (split c nl) = []"
    using same by (simp add: filter_empty_conv)
  ultimately show ?thesis
    by (simp add: colon_pass_def Let_def join_split_nl)
qed

lemma foldl_colon_pass_noop:
  "\<forall>kw \<in> set kws. \<forall>l \<in> set (split c nl). \<not> match_colon kw l \<Longrightarrow>
   foldl colon_pass (c, f) kws = (c, f)"
  by (induction kws) (simp_all add: colon_pass_noop)

lemma fix_colons_noop:
  "\<forall>kw \<in> set control_keywords. \<forall>l \<in> set (split c nl). \<not> match_colon kw l \<Longrightarrow>
   fix_colons (c, f) = (c, f)"
  by (simp add: fix_colons_def foldl_colon_pass_noop)

lemma fix_then_noop:
  assumes "\<forall>l \<in> set (split c nl). \<not> needs_then l"
  shows "fix_then (c, f) = (c, f)"
proof -
  have "map add_then (split c nl) = split c nl"
    using assms by (simp add: map_idI add_then_def)
  moreover have "filter needs_then (split c nl) = []"
    using assms by (simp add: filter_empty_conv)
  ultimately show ?thesis
    by (simp add: fix_then_def Let_def join_split_nl)
qed

lemma validate_lines:
  assumes "c \<noteq> []" and "split c nl = ls"
    and "list_ex (contains (str ''@startuml'')) ls = hs"
    and "list_ex (contains (str ''@enduml'')) ls = he"
    and "count_ifs ls (0, 0) = (i, e)"
    and "forbidden_errors ls = fe" and "colon_errors ls = ce"
    and "contains (str ''!thme'') c = th"
  shows "validate_plantuml_syntax c =
    (hs \<and> he \<and> i = e \<and> fe = [] \<and> ce = [] \<and> \<not> th,
     (if \<not> hs then [NoStartuml] else []) @ (if \<not> he then [NoEnduml] else []) @
     (if i \<noteq> e then [IfEndifMismatch i e] else []) @ fe @ ce @ (if th then [ThmeTypo] else []))"
  using assms by (auto simp: validate_plantuml_syntax_def Let_def)

lemma auto_fix_invalid:
  assumes "\<not> fst (validate_plantuml_syntax c)"
  shows "auto_fix_plantuml c =
    (let (code3, fixes3) = fix_then (fix_colons (fix_thme (c, [])));
         fixed_code = validate_if_structure code3;
         remaining_errors = snd (validate_plantuml_syntax fixed_code)
     in (fixed_code,
         if remaining_errors \<noteq> [] then fixes3 @ [RemainingErrors remaining_errors] else fixes3))"
  using assms
  by (cases "validate_plantuml_syntax c") (auto simp: auto_fix_plantuml_def Let_def split: prod.splits)

lemmas strip_defs = strip_def lstrip_def rstrip_def isspace_def

lemmas scan_defs = forbidden_errors_def colon_errors_def forbidden_ids_def control_keywords_def
  match_colon_def List.map_filter_def is_word_def isspace_def

lemma split_balance_input: "split balance_input nl = balance_lines"
  by (simp add: balance_input_def balance_lines_def)

lemma validate_balance_input:
  "validate_plantuml_syntax balance_input = (False, [NoEnduml, IfEndifMismatch 1 0])"
proof -
  have ne: "balance_input \<noteq> []" by (simp add: balance_input_def)
  have hs: "list_ex (contains (str ''@startuml'')) balance_lines = True"
    by (simp add: balance_lines_def)
  have he: "list_ex (contains (str ''@enduml'')) balance_lines = False"
    by (simp add: balance_lines_def)
  have cnt: "count_ifs balance_lines (0, 0) = (1, 0)"
    by (simp add: balance_lines_def strip_defs)
  have fe: "forbidden_errors balance_lines = []"
    by (simp add: balance_lines_def scan_defs)
  have ce: "colon_errors balance_lines = []"
    by (simp add: balance_lines_def scan_defs)
  have th: "contains (str ''!thme'') balance_input = False"
    by (simp add: balance_input_def)
  show ?thesis
    using validate_lines [OF ne split_balance_input hs he cnt fe ce th] by simp
qed

lemma repairs_balance_input:
  "fix_then (fix_colons (fix_thme (balance_input, []))) = (balance_input, [])"
proof -
  have th: "\<not> contains (str ''!thme'') balance_input"
    by (simp add: balance_input_def)
  have co: "\<forall>kw \<in> set control_keywords. \<forall>l \<in> set (split balance_input nl). \<not> match_colon kw l"
    unfolding split_balance_input by (simp add: balance_lines_def scan_defs)
  have nt: "\<forall>l \<in> set (split balance_input nl). \<not> needs_then l"
    unfolding split_balance_input by (simp add: balance_lines_def needs_then_def strip_defs)
  show ?thesis
    by (simp add: fix_thme_noop [OF th] fix_colons_noop [OF co] fix_then_noop [OF nt])
qed

lemma open_ifs_balance: "open_ifs balance_lines = [Suc 0]"
  by (simp add: open_ifs_def balance_lines_def scan_step_cases strip_defs)

lemma close_balance: "close_if balance_lines (Suc 0) = balance_fixed_lines"
  by (simp add: close_if_def balance_lines_def balance_fixed_lines_def strip_defs upt_rec)

lemma structure_balance_input: "validate_if_structure balance_input = join nl balance_fixed_lines"
  by (simp add: validate_if_structure_lines split_balance_input open_ifs_balance close_balance)

lemma validate_balance_fixed:
  "validate_plantuml_syntax (join nl balance_fixed_lines) = (False, [NoEnduml])"
proof -
  have ne: "join nl balance_fixed_lines \<noteq> []" by (simp add: balance_fixed_lines_def)
  have sp: "split (join nl balance_fixed_lines) nl = balance_fixed_lines"
    by (rule split_join_nl) (simp_all add: balance_fixed_lines_def)
  have hs: "list_ex (contains (str ''@startuml'')) balance_fixed_lines = True"
    by (simp add: balance_fixed_lines_def)
  have he: "list_ex (contains (str ''@enduml'')) balance_fixed_lines = False"
    by (simp add: balance_fixed_lines_def)
  have cnt: "count_ifs balance_fixed_lines (0, 0) = (1, 1)"
    by (simp add: balance_fixed_lines_def strip_defs)
  have fe: "forbidden_errors balance_fixed_lines = []"
    by (simp add: balance_fixed_lines_def scan_defs)
  have ce: "colon_errors balance_fixed_lines = []"
    by (simp add: balance_fixed_lines_def scan_defs)
  have th: "contains (str ''!thme'') (join nl balance_fixed_lines) = False"
    by (simp add: balance_fixed_lines_def)
  show ?thesis
    using validate_lines [OF ne sp hs he cnt fe ce th] by simp
qed

lemma auto_fix_balance_input:
  "auto_fix_plantuml balance_input = (join nl balance_fixed_lines, [RemainingErrors [NoEnduml]])"
proof -
  have "\<not> fst (validate_plantuml_syntax balance_input)"
    by (simp add: validate_balance_input)
  from auto_fix_invalid [OF this] show ?thesis
    by (simp add: repairs_balance_input structure_balance_input validate_balance_fixed)
qed

lemma validate_empty: "validate_plantuml_syntax [] = (False, [EmptyCode])"
  by (simp add: validate_plantuml_syntax_def)

lemma repairs_empty: "fix_then (fix_colons (fix_thme ([], []))) = ([], [])"
proof -
  have th: "\<not> contains (str ''!thme'') []"
    by simp
  have co: "\<forall>kw \<in> set control_keywords. \<forall>l \<in> set (split [] nl). \<not> match_colon kw l"
    by (simp add: scan_defs)
  have nt: "\<forall>l \<in> set (split [] nl). \<not> needs_then l"
    by (simp add: needs_then_def strip_defs)
  show ?thesis
    by (simp add: fix_thme_noop [OF th] fix_colons_noop [OF co] fix_then_noop [OF nt])
qed

lemma structure_empty: "validate_if_structure [] = []"
  by (simp add: validate_if_structure_lines open_ifs_def scan_step_cases strip_defs)

lemma auto_fix_empty: "auto_fix_plantuml [] = ([], [RemainingErrors [EmptyCode]])"
proof -
  have "\<not> fst (validate_plantuml_syntax [])"
    by (simp add: validate_empty)
  from auto_fix_invalid [OF this] show ?thesis
    by (simp add: repairs_empty structure_empty validate_empty)
qed

section \<open>The repair pass appends to the lines and keeps them\<close>







section \<open>The translators on the lines of the scenarios\<close>

lemma mermaid_lines_login: "mermaid_lines login_line = [login_line]"
  by (simp add: mermaid_lines_def login_line_def strip_defs)

lemma usecase_line_login: "usecase_line usecase_init login_line = Inr login_state"
proof -
  have st: "strip login_line = login_line"
    by (simp add: login_line_def strip_defs)
  have arrow: "contains (str ''-->'') login_line"
    by (simp add: login_line_def)
  have parts: "split login_line (str ''-->'') = [str ''A[User] '', str '' B((Login))'']"
    by (simp add: login_line_def)
  have sp: "strip (str ''A[User] '') = str ''A[User]''" "strip (str '' B((Login))'') = str ''B((Login))''"
    by (simp_all add: strip_defs)
  have src: "usecase_source usecase_init (str ''A[User]'') =
      usecase_init\<lparr>actors := [(str ''A'', str ''User'')], uc_source_id := Some (str ''A'')\<rparr>"
    by (simp add: usecase_source_def match_actor_def is_word_def usecase_init_def)
  have lab: "take_label (str ''B((Login))'') = ([], str ''B((Login))'')"
    by (simp add: take_label_def)
  have tgt: "usecase_target (usecase_init\<lparr>actors := [(str ''A'', str ''User'')], uc_source_id := Some (str ''A'')\<rparr>)
       (str ''B((Login))'') (str ''-->'') [] = Inr login_state"
    by (simp add: usecase_target_def match_usecase_def is_word_def usecase_init_def
        append_connection_def login_state_def)
  show ?thesis
    unfolding usecase_line_def st Let_def
    by (simp add: login_line_def sp [simplified] src [simplified] lab [simplified] tgt [simplified])
qed


lemma usecase_parse_login: "usecase_parse login_line = Inr login_state"
  using usecase_line_login
  by (simp add: usecase_parse_def mermaid_lines_login usecase_init_def)

lemma usecase_output_login:
  "usecase_output login_state =
     usecase_header @
     [str ''actor '' @ [34] @ str ''User'' @ [34] @ str '' as A'', [],
      str ''usecase '' @ [34] @ str ''Login'' @ [34] @ str '' as B'', [],
      str ''A --> B'', str ''@enduml'']"
  by (simp add: usecase_output_def login_state_def relation_line_def quoted_def)

lemma generate_login:
  "generateUseCaseDiagram [(str ''usecase_mermaid'', login_line)] =
     Inr (join nl (usecase_header @
     [str ''actor '' @ [34] @ str ''User'' @ [34] @ str '' as A'', [],
      str ''usecase '' @ [34] @ str ''Login'' @ [34] @ str '' as B'', [],
      str ''A --> B'', str ''@enduml'']))"
  unfolding generateUseCaseDiagram_def
  by (simp add: usecase_parse_login usecase_output_login)

lemma mermaid_lines_unbound: "mermaid_lines unbound_line = [unbound_line]"
  by (simp add: mermaid_lines_def unbound_line_def strip_defs)

lemma usecase_line_unbound: "usecase_line usecase_init unbound_line = Inl UnboundLocalError"
proof -
  have st: "strip unbound_line = unbound_line"
    by (simp add: unbound_line_def strip_defs)
  have sp: "strip (str ''X '') = str ''X''" "strip (str '' B((Login))'') = str ''B((Login))''"
    by (simp_all add: strip_defs)
  have src: "usecase_source usecase_init (str ''X'') = usecase_init"
    by (simp add: usecase_source_def)
  have lab: "take_label (str ''B((Login))'') = ([], str ''B((Login))'')"
    by (simp add: take_label_def)
  have tgt: "usecase_target usecase_init (str ''B((Login))'') (str ''-->'') [] = Inl UnboundLocalError"
    by (simp add: usecase_target_def match_usecase_def is_word_def usecase_init_def
        append_connection_def)
  show ?thesis
    unfolding usecase_line_def st Let_def
    by (simp add: unbound_line_def sp [simplified] src [simplified] lab [simplified] tgt [simplified])
qed

lemma generate_unbound:
  "generateUseCaseDiagram [(str ''usecase_mermaid'', unbound_line)] = Inl UnboundLocalError"
  unfolding generateUseCaseDiagram_def
  using usecase_line_unbound
  by (simp add: usecase_parse_def mermaid_lines_unbound usecase_init_def)











section \<open>The fixer on the texts of the scenarios\<close>












section \<open>Substrings\<close>












section \<open>The colon repair, line by line\<close>






















section \<open>After one run no logged repair applies\<close>









section \<open>The claims about the repair engine on fixed inputs\<close>

text \<open>
  Claim C5. On the text \<open>"@startuml\nif (x?) then\n:a;\n"\<close> (one unclosed conditional, no
  end marker) \<open>auto_fix_plantuml\<close> returns the lines of the input with exactly one line
  \<open>endif\<close> inserted, before the end of the text (it stands right after the \<open>if\<close> line), and
  no other line added.
\<close>

theorem repair_balance_scenario:
  "split balance_input nl = [str ''@startuml'', str ''if (x?) then'', str '':a;'', []] \<and>
   split (fst (auto_fix_plantuml balance_input)) nl =
     [str ''@startuml'', str ''if (x?) then'', str ''endif'', str '':a;'', []] \<and>
   fst (auto_fix_plantuml balance_input) =
     str ''@startuml'' @ nl @ str ''if (x?) then'' @ nl @ str ''endif'' @ nl @ str '':a;'' @ nl"
proof -
  have "split (join nl balance_fixed_lines) nl = balance_fixed_lines"
    by (rule split_join_nl) (simp_all add: balance_fixed_lines_def)
  then show ?thesis
    by (simp add: auto_fix_balance_input split_balance_input)
       (simp add: balance_lines_def balance_fixed_lines_def)
qed

text \<open>
  Claim C6. On the same text \<open>validate_plantuml_syntax\<close> returns \<open>is_valid = False\<close> and
  the errors "\<open>@enduml\<close> is missing" and "the numbers of \<open>if\<close> (1) and \<open>endif\<close> (0) differ",
  and no other error.
\<close>

theorem validate_balance_scenario:
  "validate_plantuml_syntax balance_input = (False, [NoEnduml, IfEndifMismatch 1 0])"
  by (simp add: validate_balance_input)

text \<open>
  Claim C10. On the empty text \<open>auto_fix_plantuml\<close> returns the empty text, unchanged,
  with exactly one diagnostic: the entry of the remaining errors, which holds the error of
  the empty code. The list of diagnostics is not empty although the text was not modified.
\<close>

theorem repair_empty_text:
  "auto_fix_plantuml [] = ([], [RemainingErrors [EmptyCode]])"
  by (simp add: auto_fix_empty)

section \<open>The claims about the repair engine on every text\<close>







section \<open>The claims about the translators\<close>

text \<open>
  Claim C1, at the input that shows the defect of the code: the dictionary holds the key
  \<open>usecase_mermaid\<close> with the one line \<open>X --> B((Login))\<close>. The source side matches
  neither form, so \<open>source_id\<close> is never assigned; the target side matches the use-case
  form, and appending the connection reads \<open>source_id\<close>: the call raises
  \<open>UnboundLocalError\<close> instead of skipping the line.
\<close>

theorem usecase_unbound_source_raises:
  "generateUseCaseDiagram [(str ''usecase_mermaid'', str ''X --> B((Login))'')] = Inl UnboundLocalError"
  using generate_unbound by (simp add: unbound_line_def)








text \<open>
  Claim C9. On the one line \<open>A[User] --> B((Login))\<close> the parser registers \<open>A\<close> as an actor
  with the text \<open>User\<close> and \<open>B\<close> as a use case with the text \<open>Login\<close>, and records one
  connection; the output holds, after the two declarations, the one relationship line
  \<open>A --> B\<close>, solid and without a label.
\<close>

theorem login_scenario:
  "usecase_parse (str ''A[User] --> B((Login))'') =
     Inr \<lparr>actors = [(str ''A'', str ''User'')], usecases = [(str ''B'', str ''Login'')],
          uc_connections = [(str ''A'', str ''B'', str ''-->'', [])],
          uc_source_id = Some (str ''A'')\<rparr> \<and>
   generateUseCaseDiagram [(str ''usecase_mermaid'', str ''A[User] --> B((Login))'')] =
     Inr (join nl (usecase_header @
       [str ''actor '' @ [34] @ str ''User'' @ [34] @ str '' as A'', [],
        str ''usecase '' @ [34] @ str ''Login'' @ [34] @ str '' as B'', [],
        str ''A --> B'', str ''@enduml'']))"
  using usecase_parse_login generate_login by (simp add: login_line_def login_state_def)

end
